theory Spec2Isabelle
  imports Main "HOL-Library.Sublist"
begin

section \<open>Data model (types.ts)\<close>

text \<open>
  The union types of string literals of \<^verbatim>\<open>types.ts\<close> are datatypes; each comes with the
  text of its literal where the builder prints it. An optional field (\<^verbatim>\<open>alias?\<close>,
  \<^verbatim>\<open>aggregate?\<close>, \<^verbatim>\<open>limit?\<close>) is an \<open>option\<close>. An optional array field
  (\<^verbatim>\<open>columns?\<close>, \<^verbatim>\<open>joins?\<close>, \<^verbatim>\<open>wheres?\<close>, \<^verbatim>\<open>groupBy?\<close>, \<^verbatim>\<open>having?\<close>,
  \<^verbatim>\<open>orderBy?\<close>) is a list, the absent field being the empty list: the builder reads
  these fields only through \<^verbatim>\<open>?.length\<close>, \<^verbatim>\<open>?.some(...)\<close> and
  \<^verbatim>\<open>?.map(...).join(...) || ''\<close>, none of which tells \<^verbatim>\<open>undefined\<close> from \<^verbatim>\<open>[]\<close>.

  A string is a list of 8-bit code units. The elements of \<^verbatim>\<open>vals: any[]\<close> are the
  scalars the builder formats: strings, integral numbers and booleans. A number is an
  \<open>int\<close> and prints in plain decimal notation with all its digits. JavaScript numbers
  are doubles: \<^verbatim>\<open>String(n)\<close> has exactly these digits for the integers \<open>n\<close> with
  \<open>\<bar>n\<bar> < 2^53\<close>; above that bound it prints the shortest digits that read back as
  the same double, and from \<open>10^21\<close> on it uses exponent notation. A statement on the
  printed text of a number therefore carries the bound \<open>\<bar>n\<bar> < 2^53\<close>.
\<close>

datatype comparisonOperator =
  OpEq | OpLt | OpGt | OpLe | OpGe | OpNe
  | OpLike | OpNotLike | OpIn | OpNotIn | OpBetween | OpNotBetween | OpIsNull | OpIsNotNull

datatype aggregateType = AggCount | AggSum | AggAvg | AggMin | AggMax

datatype joinType = JoinInner | JoinLeft | JoinRight | JoinFull

datatype clientType = Mysql | Postgres | Sqlite | Mssql

datatype val = VString string | VNumber int | VBoolean bool

datatype Table = TableString string | TableObject (tname: string) (talias: "string option")

datatype Column =
  ColumnString string
  | ColumnObject (tableAlias: string) (cname: string) (calias: "string option")

record Comparison =
  col :: Column
  vals :: "val list"
  op :: comparisonOperator

record Aggregate =
  agg_col :: Column
  agg_type :: aggregateType

record Join =
  jtable :: string
  jon :: "Comparison list"
  jtype :: joinType

record SqlQuery =
  distinct_flag :: bool
  aggregate :: "Aggregate option"
  columns :: "Column list"
  tables :: "Table list"
  joins :: "Join list"
  wheres :: "Comparison list"
  groupBy :: "Column list"
  having :: "Comparison list"
  orderBy :: "string list"
  limit :: "int option"
  client :: clientType

fun operatorText :: "comparisonOperator \<Rightarrow> string" where
  "operatorText OpEq = ''=''"
| "operatorText OpLt = ''<''"
| "operatorText OpGt = ''>''"
| "operatorText OpLe = ''<=''"
| "operatorText OpGe = ''>=''"
| "operatorText OpNe = ''!=''"
| "operatorText OpLike = ''LIKE''"
| "operatorText OpNotLike = ''NOT LIKE''"
| "operatorText OpIn = ''IN''"
| "operatorText OpNotIn = ''NOT IN''"
| "operatorText OpBetween = ''BETWEEN''"
| "operatorText OpNotBetween = ''NOT BETWEEN''"
| "operatorText OpIsNull = ''IS NULL''"
| "operatorText OpIsNotNull = ''IS NOT NULL''"

fun aggregateText :: "aggregateType \<Rightarrow> string" where
  "aggregateText AggCount = ''COUNT''"
| "aggregateText AggSum = ''SUM''"
| "aggregateText AggAvg = ''AVG''"
| "aggregateText AggMin = ''MIN''"
| "aggregateText AggMax = ''MAX''"

text \<open>\<^verbatim>\<open>type.toUpperCase()\<close> of a join type.\<close>

fun joinTypeUpper :: "joinType \<Rightarrow> string" where
  "joinTypeUpper JoinInner = ''INNER''"
| "joinTypeUpper JoinLeft = ''LEFT''"
| "joinTypeUpper JoinRight = ''RIGHT''"
| "joinTypeUpper JoinFull = ''FULL''"

section \<open>JavaScript strings\<close>

text \<open>\<^verbatim>\<open>xs.join(sep)\<close>\<close>

fun join :: "string \<Rightarrow> string list \<Rightarrow> string" where
  "join sep [] = []"
| "join sep [x] = x"
| "join sep (x # y # ys) = x @ sep @ join sep (y # ys)"

text \<open>A string is truthy when it is not empty; an optional string when it is present and not empty.\<close>

fun truthy :: "string option \<Rightarrow> bool" where
  "truthy None = False"
| "truthy (Some s) = (s \<noteq> [])"

text \<open>A number is truthy when it is not zero (\<^verbatim>\<open>limit\<close> is an integer here).\<close>

fun truthyNumber :: "int option \<Rightarrow> bool" where
  "truthyNumber None = False"
| "truthyNumber (Some n) = (n \<noteq> 0)"

definition digit :: "nat \<Rightarrow> char" where
  "digit d = ''0123456789'' ! d"

fun natToString :: "nat \<Rightarrow> string" where
  "natToString n = (if n < 10 then [digit n] else natToString (n div 10) @ [digit (n mod 10)])"

declare natToString.simps [simp del]

text \<open>\<^verbatim>\<open>String(n)\<close> of an integral number \<open>n\<close> with \<open>\<bar>n\<bar> < 2^53\<close>.\<close>

definition numberToString :: "int \<Rightarrow> string" where
  "numberToString n = (if n < 0 then CHR ''-'' # natToString (nat (- n)) else natToString (nat n))"

text \<open>\<^verbatim>\<open>String(v)\<close>, the conversion a template literal and \<^verbatim>\<open>Array.prototype.join\<close> apply.\<close>

fun valToString :: "val \<Rightarrow> string" where
  "valToString (VString s) = s"
| "valToString (VNumber n) = numberToString n"
| "valToString (VBoolean b) = (if b then ''true'' else ''false'')"

text \<open>
  The white space of \<^verbatim>\<open>\s\<close> and of \<^verbatim>\<open>trim()\<close> among the code units below 256:
  tab, line feed, vertical tab, form feed, carriage return, space, no-break space.
\<close>

definition isSpace :: "char \<Rightarrow> bool" where
  "isSpace c = (c \<in> set [CHR 0x09, CHR 0x0A, CHR 0x0B, CHR 0x0C, CHR 0x0D, CHR '' '', CHR 0xA0])"

text \<open>\<^verbatim>\<open>s.trim()\<close>\<close>

definition trim :: "string \<Rightarrow> string" where
  "trim s = rev (dropWhile isSpace (rev (dropWhile isSpace s)))"

text \<open>\<^verbatim>\<open>s.replace(/\s+/g, ' ')\<close>: every maximal run of white space becomes one space.\<close>

function replaceSpaces :: "string \<Rightarrow> string" where
  "replaceSpaces [] = []"
| "replaceSpaces (c # cs) =
     (if isSpace c then CHR '' '' # replaceSpaces (dropWhile isSpace cs)
      else c # replaceSpaces cs)"
  by pat_completeness auto
termination
  by (relation "measure length") (auto simp: le_imp_less_Suc length_dropWhile_le)

text \<open>
  Case mapping of the ASCII letters. \<^verbatim>\<open>toUpperCase()\<close> and the \<^verbatim>\<open>i\<close> flag of a
  regular expression map no code unit from 128 to 255 to an ASCII letter, so for the
  ASCII patterns the builder compares with, mapping the ASCII letters is exact.
\<close>

definition toUpper :: "char \<Rightarrow> char" where
  "toUpper c =
     (case map_of (zip ''abcdefghijklmnopqrstuvwxyz'' ''ABCDEFGHIJKLMNOPQRSTUVWXYZ'') c of
        Some u \<Rightarrow> u | None \<Rightarrow> c)"

definition toLower :: "char \<Rightarrow> char" where
  "toLower c =
     (case map_of (zip ''ABCDEFGHIJKLMNOPQRSTUVWXYZ'' ''abcdefghijklmnopqrstuvwxyz'') c of
        Some l \<Rightarrow> l | None \<Rightarrow> c)"

text \<open>\<^verbatim>\<open>s.includes(t)\<close>: \<open>t\<close> occurs in \<open>s\<close> as a contiguous piece.\<close>

fun stringIncludes :: "string \<Rightarrow> string \<Rightarrow> bool" where
  "stringIncludes [] t = (t = [])"
| "stringIncludes (c # cs) t = (prefix t (c # cs) \<or> stringIncludes cs t)"

section \<open>Clause rendering (sqlOperation.ts)\<close>

text \<open>
  \<^verbatim>\<open>typeof value === 'string' ? `'${value}'` : value\<close>, as it is printed in a template
  or joined.
\<close>

abbreviation (input) sq :: string where
  "sq \<equiv> [CHR 0x27]"

fun quoted :: "val \<Rightarrow> string" where
  "quoted (VString s) = sq @ s @ sq"
| "quoted v = valToString v"

text \<open>
  The same for an element read out of range, which is \<^verbatim>\<open>undefined\<close>: a template prints
  it as the word \<^verbatim>\<open>undefined\<close>.
\<close>

fun quotedAt :: "val list \<Rightarrow> nat \<Rightarrow> string" where
  "quotedAt vs i = (if i < length vs then quoted (vs ! i) else ''undefined'')"

fun printedAt :: "val list \<Rightarrow> nat \<Rightarrow> string" where
  "printedAt vs i = (if i < length vs then valToString (vs ! i) else ''undefined'')"

text \<open>
  \<^verbatim>\<open>valuesString(operator, values)\<close>. In the default case \<^verbatim>\<open>values\<close> is the array, so
  \<^verbatim>\<open>typeof values === 'string'\<close> is false and the template prints the array: its elements
  converted by \<^verbatim>\<open>String\<close> and joined by a comma.
\<close>

fun valuesString :: "comparisonOperator \<Rightarrow> val list \<Rightarrow> string" where
  "valuesString OpIn values = ''IN ('' @ join '', '' (map quoted values) @ '')''"
| "valuesString OpNotIn values = ''NOT IN ('' @ join '', '' (map quoted values) @ '')''"
| "valuesString OpBetween values =
     ''BETWEEN ('' @ quotedAt values 0 @ '' AND '' @ quotedAt values 1 @ '')''"
| "valuesString OpNotBetween values =
     ''NOT BETWEEN ('' @ quotedAt values 0 @ '' AND '' @ quotedAt values 1 @ '')''"
| "valuesString OpLike values = ''LIKE '' @ sq @ ''%'' @ printedAt values 0 @ ''%'' @ sq"
| "valuesString OpNotLike values = ''NOT LIKE '' @ sq @ ''%'' @ printedAt values 0 @ ''%'' @ sq"
| "valuesString OpIsNull values = ''IS NULL''"
| "valuesString OpIsNotNull values = ''IS NOT NULL''"
| "valuesString operator values =
     operatorText operator @ '' '' @ join '','' (map valToString values)"

fun columnString :: "Column \<Rightarrow> string" where
  "columnString (ColumnString s) = s"
| "columnString (ColumnObject ta n a) = ta @ ''.'' @ n"

text \<open>The comparison printed in \<^verbatim>\<open>ON\<close>, \<^verbatim>\<open>WHERE\<close> and \<^verbatim>\<open>HAVING\<close>:
  \<^verbatim>\<open>`${columnString(col)} ${valuesString(op, vals)}`\<close>.\<close>

definition comparisonString :: "Comparison \<Rightarrow> string" where
  "comparisonString c = columnString (col c) @ '' '' @ valuesString (op c) (vals c)"

fun tableString :: "Table \<Rightarrow> string" where
  "tableString (TableString s) = s"
| "tableString (TableObject n a) = n @ (if truthy a then '' AS '' @ the a else [])"

text \<open>An entry of the projection list: the name alone, then the alias.\<close>

fun projectionString :: "Column \<Rightarrow> string" where
  "projectionString (ColumnString s) = s"
| "projectionString (ColumnObject ta n a) = n @ (if truthy a then '' AS '' @ the a else [])"

definition joinString :: "Join \<Rightarrow> string" where
  "joinString j =
     joinTypeUpper (jtype j) @ '' JOIN '' @ jtable j @ '' ON ''
       @ join '' AND '' (map comparisonString (jon j))"

definition tablesString :: "SqlQuery \<Rightarrow> string" where
  "tablesString params = join '', '' (map tableString (tables params))"

definition columnsString :: "SqlQuery \<Rightarrow> string" where
  "columnsString params = join '', '' (map projectionString (columns params))"

definition joinsString :: "SqlQuery \<Rightarrow> string" where
  "joinsString params = join '' '' (map joinString (joins params))"

definition wheresString :: "SqlQuery \<Rightarrow> string" where
  "wheresString params = join '' AND '' (map comparisonString (wheres params))"

definition havingString :: "SqlQuery \<Rightarrow> string" where
  "havingString params = join '' AND '' (map comparisonString (having params))"

definition groupByString :: "SqlQuery \<Rightarrow> string" where
  "groupByString params = join '', '' (map columnString (groupBy params))"

definition orderByString :: "SqlQuery \<Rightarrow> string" where
  "orderByString params = join '', '' (orderBy params)"

section \<open>Statement assembly\<close>

text \<open>
  The pieces of the template of \<^verbatim>\<open>buildSqlQuery\<close>, one per line of the source,
  each without the space the template puts before it. The default \<^verbatim>\<open>client = 'mssql'\<close>
  of the destructuring applies to an absent \<^verbatim>\<open>client\<close> only, which the type
  \<^verbatim>\<open>SqlQuery\<close> excludes.
\<close>

definition topPart :: "SqlQuery \<Rightarrow> string" where
  "topPart params =
     (if client params = Mssql \<and> truthyNumber (limit params)
      then ''TOP '' @ numberToString (the (limit params)) else [])"

definition distinctPart :: "SqlQuery \<Rightarrow> string" where
  "distinctPart params = (if distinct_flag params then ''DISTINCT '' else [])"

definition aggregatePart :: "SqlQuery \<Rightarrow> string" where
  "aggregatePart params =
     (case aggregate params of
        Some a \<Rightarrow> aggregateText (agg_type a) @ ''('' @ columnString (agg_col a) @ '')''
      | None \<Rightarrow> [])"

text \<open>\<^verbatim>\<open>!aggregate?.type && columns?.length ? columnsString : '*'\<close>\<close>

definition projectionPart :: "SqlQuery \<Rightarrow> string" where
  "projectionPart params =
     (if aggregate params = None \<and> columns params \<noteq> [] then columnsString params else ''*'')"

definition joinsPart :: "SqlQuery \<Rightarrow> string" where
  "joinsPart params = (if joinsString params \<noteq> [] then '' '' @ joinsString params else [])"

definition wheresPart :: "SqlQuery \<Rightarrow> string" where
  "wheresPart params =
     (if wheresString params \<noteq> [] then ''WHERE '' @ wheresString params else [])"

definition groupByPart :: "SqlQuery \<Rightarrow> string" where
  "groupByPart params =
     (if groupByString params \<noteq> [] then ''GROUP BY '' @ groupByString params else [])"

definition havingPart :: "SqlQuery \<Rightarrow> string" where
  "havingPart params =
     (if havingString params \<noteq> [] then ''HAVING '' @ havingString params else [])"

definition orderByPart :: "SqlQuery \<Rightarrow> string" where
  "orderByPart params =
     (if orderByString params \<noteq> [] then ''ORDER BY '' @ orderByString params else [])"

definition limitPart :: "SqlQuery \<Rightarrow> string" where
  "limitPart params =
     (if client params \<noteq> Mssql \<and> truthyNumber (limit params)
      then ''LIMIT '' @ numberToString (the (limit params)) else [])"

definition template :: "SqlQuery \<Rightarrow> string" where
  "template params =
     ''SELECT''
     @ '' '' @ topPart params
     @ '' '' @ distinctPart params
     @ '' '' @ aggregatePart params
     @ '' '' @ projectionPart params
     @ '' FROM '' @ tablesString params
     @ '' '' @ joinsPart params
     @ '' '' @ wheresPart params
     @ '' '' @ groupByPart params
     @ '' '' @ havingPart params
     @ '' '' @ orderByPart params
     @ '' '' @ limitPart params"

text \<open>\<^verbatim>\<open>const query = (...).trim().replace(/\s+/g, ' ')\<close>\<close>

definition query :: "SqlQuery \<Rightarrow> string" where
  "query params = replaceSpaces (trim (template params))"

section \<open>Validation\<close>

text \<open>
  The errors \<^verbatim>\<open>validations\<close> throws, in the order of the source, then the two of the
  final check of the statement:
  \<^item> \<open>TableRequired\<close>: At least one table is required
  \<^item> \<open>GroupByRequired\<close>: Group by is required when using aggregate
  \<^item> \<open>HavingRequires\<close>: Group by and aggregate are required when using having
  \<^item> \<open>AliasesNotUnique\<close>: Column aliases must be unique
  \<^item> \<open>InvalidTableAlias name tableAlias\<close>: Column 'name' references invalid table alias 'tableAlias'
  \<^item> \<open>SqliteHaving\<close>: Having is not supported in sqlite
  \<^item> \<open>SqliteJoin\<close>: RIGHT and FULL JOINs are not supported in SQLite
  \<^item> \<open>MssqlDistinctOrderBy\<close>: Order by is not supported when using distinct in mssql
  \<^item> \<open>OrderByRequired\<close>: Order by is required when using limit
  \<^item> \<open>ColumnsNotGrouped\<close>: Columns in SELECT must either be in GROUP BY or be aggregated
  \<^item> \<open>JoinConditionRequired table\<close>: Join condition is required for table: table
  \<^item> \<open>WhereRequired\<close>: Where is required when using multiple tables
  \<^item> \<open>PossibleInjection\<close>: Possible SQL injection attempt detected. Only SELECT queries are allowed.
  \<^item> \<open>OnlySelect\<close>: Only SELECT queries are allowed.
\<close>

datatype error =
  TableRequired
  | GroupByRequired
  | HavingRequires
  | AliasesNotUnique
  | InvalidTableAlias string string
  | SqliteHaving
  | SqliteJoin
  | MssqlDistinctOrderBy
  | OrderByRequired
  | ColumnsNotGrouped
  | JoinConditionRequired string
  | WhereRequired
  | PossibleInjection
  | OnlySelect

text \<open>\<^verbatim>\<open>columns.filter(col => typeof col !== 'string').map(col => col.alias).filter(alias => alias)\<close>\<close>

fun aliases :: "Column list \<Rightarrow> string list" where
  "aliases [] = []"
| "aliases (ColumnString s # cs) = aliases cs"
| "aliases (ColumnObject ta n a # cs) = (if truthy a then the a # aliases cs else aliases cs)"

text \<open>\<^verbatim>\<open>tables.filter(table => typeof table !== 'string').some(table =>
  column.tableAlias === table.name || column.tableAlias === table.alias)\<close>\<close>

fun tableExists :: "Table list \<Rightarrow> string \<Rightarrow> bool" where
  "tableExists [] ta = False"
| "tableExists (TableString s # ts) ta = tableExists ts ta"
| "tableExists (TableObject n a # ts) ta = (ta = n \<or> Some ta = a \<or> tableExists ts ta)"

text \<open>The loop over the columns: the first object column whose table alias no table has.\<close>

fun invalidColumn :: "Table list \<Rightarrow> Column list \<Rightarrow> error option" where
  "invalidColumn ts [] = None"
| "invalidColumn ts (ColumnString s # cs) = invalidColumn ts cs"
| "invalidColumn ts (ColumnObject ta n a # cs) =
     (if \<not> tableExists ts ta then Some (InvalidTableAlias n ta) else invalidColumn ts cs)"

text \<open>\<^verbatim>\<open>new Set(groupBy.filter(col => typeof col !== 'string').map(col => col.name))\<close>\<close>

fun groupByColumns :: "Column list \<Rightarrow> string set" where
  "groupByColumns [] = {}"
| "groupByColumns (ColumnString s # cs) = groupByColumns cs"
| "groupByColumns (ColumnObject ta n a # cs) = insert n (groupByColumns cs)"

text \<open>\<^verbatim>\<open>name.toUpperCase().match(/^(COUNT|SUM|AVG|MIN|MAX)\(/)\<close>\<close>

definition aggregateCall :: "string \<Rightarrow> bool" where
  "aggregateCall name =
     list_ex (\<lambda>p. prefix p (map toUpper name)) [''COUNT('', ''SUM('', ''AVG('', ''MIN('', ''MAX('']"

fun notMapped :: "string set \<Rightarrow> Column \<Rightarrow> bool" where
  "notMapped g (ColumnString s) = False"
| "notMapped g (ColumnObject ta n a) = (n \<notin> g \<and> \<not> aggregateCall n)"

definition notMappedColumns :: "SqlQuery \<Rightarrow> Column list" where
  "notMappedColumns params =
     filter (notMapped (groupByColumns (groupBy params))) (columns params)"

text \<open>The loop over the joins: the first join without a condition.\<close>

fun joinWithoutOn :: "Join list \<Rightarrow> error option" where
  "joinWithoutOn [] = None"
| "joinWithoutOn (j # js) =
     (if jon j = [] then Some (JoinConditionRequired (jtable j)) else joinWithoutOn js)"

text \<open>\<^verbatim>\<open>validations(params)\<close>: \<open>Some e\<close> when it throws \<open>e\<close>, \<open>None\<close> when it returns.\<close>

definition validations :: "SqlQuery \<Rightarrow> error option" where
  "validations params =
    (if tables params = [] then Some TableRequired
     else if (aggregate params \<noteq> None \<and> groupBy params = [])
            \<or> (aggregate params = None \<and> groupBy params \<noteq> []) then Some GroupByRequired
     else if having params \<noteq> [] \<and> (groupBy params = [] \<or> aggregate params = None)
       then Some HavingRequires
     else if columns params \<noteq> []
            \<and> length (remdups (aliases (columns params))) \<noteq> length (aliases (columns params))
       then Some AliasesNotUnique
     else if columns params \<noteq> [] \<and> invalidColumn (tables params) (columns params) \<noteq> None
       then invalidColumn (tables params) (columns params)
     else if client params = Sqlite \<and> having params \<noteq> [] then Some SqliteHaving
     else if client params = Sqlite
            \<and> list_ex (\<lambda>j. jtype j = JoinRight \<or> jtype j = JoinFull) (joins params)
       then Some SqliteJoin
     else if client params = Mssql \<and> distinct_flag params \<and> orderBy params \<noteq> []
       then Some MssqlDistinctOrderBy
     else if (client params = Postgres \<or> client params = Mssql)
            \<and> truthyNumber (limit params) \<and> orderBy params = []
       then Some OrderByRequired
     else if (client params = Mysql \<or> client params = Mssql)
            \<and> groupBy params \<noteq> [] \<and> columns params \<noteq> [] \<and> notMappedColumns params \<noteq> []
       then Some ColumnsNotGrouped
     else if joins params \<noteq> [] \<and> joinWithoutOn (joins params) \<noteq> None
       then joinWithoutOn (joins params)
     else if length (tables params) > 1 \<and> wheres params = [] then Some WhereRequired
     else None)"

section \<open>The final check and the promise\<close>

text \<open>
  \<^verbatim>\<open>/;|--|\/\*|\*\/|xp_|exec|execute|insert|update|delete|drop|alter|create|truncate/i.test(s)\<close>:
  one of the alternatives occurs in \<open>s\<close>, letters compared without case.
\<close>

definition sqlInjectionPattern :: "string \<Rightarrow> bool" where
  "sqlInjectionPattern s =
     list_ex (stringIncludes (map toLower s))
       ['';'', ''--'', ''/*'', ''*/'', ''xp_'', ''exec'', ''execute'', ''insert'', ''update'',
        ''delete'', ''drop'', ''alter'', ''create'', ''truncate'']"

text \<open>\<^verbatim>\<open>s.trim().toUpperCase().startsWith('SELECT')\<close>\<close>

definition startsWithSelect :: "string \<Rightarrow> bool" where
  "startsWithSelect s = prefix ''SELECT'' (map toUpper (trim s))"

text \<open>
  A promise is pending until the first call of \<^verbatim>\<open>resolve\<close> or \<^verbatim>\<open>reject\<close> settles it;
  a later call leaves a settled promise as it is.
\<close>

datatype promise = Pending | Fulfilled string | Rejected error

fun resolve :: "string \<Rightarrow> promise \<Rightarrow> promise" where
  "resolve v Pending = Fulfilled v"
| "resolve v p = p"

fun reject :: "error \<Rightarrow> promise \<Rightarrow> promise" where
  "reject e Pending = Rejected e"
| "reject e p = p"

text \<open>
  The body of the executor after \<^verbatim>\<open>query\<close> is built: the two checks, neither of which
  returns, then \<^verbatim>\<open>resolve(query)\<close>. The promise is passed through the three calls.
  Nothing in the \<^verbatim>\<open>try\<close> block throws on a value of type \<^verbatim>\<open>SqlQuery\<close>, so the
  \<^verbatim>\<open>catch\<close> branch has no part here.
\<close>

definition executor :: "string \<Rightarrow> promise \<Rightarrow> promise" where
  "executor q p0 =
     (let p1 = (if sqlInjectionPattern q then reject PossibleInjection p0 else p0);
          p2 = (if \<not> startsWithSelect q then reject OnlySelect p1 else p1)
      in resolve q p2)"

text \<open>
  \<^verbatim>\<open>buildSqlQuery(params)\<close>: \<open>Inl e\<close> when \<^verbatim>\<open>validations\<close> throws \<open>e\<close> out of the call,
  before any promise exists; otherwise the promise the call returns, as settled by its
  executor.
\<close>

definition buildSqlQuery :: "SqlQuery \<Rightarrow> error + promise" where
  "buildSqlQuery params =
     (case validations params of
        Some e \<Rightarrow> Inl e
      | None \<Rightarrow> Inr (executor (query params) Pending))"

section \<open>The checks of the validation, one by one\<close>

text \<open>
  Each check of \<^verbatim>\<open>validations\<close> taken alone, with the error it throws, in the eight
  groups of the specification; the dialect group is made of four blocks of the source.
\<close>

definition ruleTables :: "SqlQuery \<Rightarrow> error option" where
  "ruleTables params = (if tables params = [] then Some TableRequired else None)"

definition ruleCoupling :: "SqlQuery \<Rightarrow> error option" where
  "ruleCoupling params =
     (if (aggregate params \<noteq> None \<and> groupBy params = [])
         \<or> (aggregate params = None \<and> groupBy params \<noteq> [])
      then Some GroupByRequired else None)"

definition ruleHaving :: "SqlQuery \<Rightarrow> error option" where
  "ruleHaving params =
     (if having params \<noteq> [] \<and> (groupBy params = [] \<or> aggregate params = None)
      then Some HavingRequires else None)"

definition ruleAliasUnique :: "SqlQuery \<Rightarrow> error option" where
  "ruleAliasUnique params =
     (if columns params \<noteq> []
         \<and> length (remdups (aliases (columns params))) \<noteq> length (aliases (columns params))
      then Some AliasesNotUnique else None)"

definition ruleAliasResolution :: "SqlQuery \<Rightarrow> error option" where
  "ruleAliasResolution params =
     (if columns params \<noteq> [] then invalidColumn (tables params) (columns params) else None)"

definition ruleSqlite :: "SqlQuery \<Rightarrow> error option" where
  "ruleSqlite params =
     (if client params = Sqlite \<and> having params \<noteq> [] then Some SqliteHaving
      else if client params = Sqlite
             \<and> list_ex (\<lambda>j. jtype j = JoinRight \<or> jtype j = JoinFull) (joins params)
        then Some SqliteJoin
      else None)"

definition ruleMssqlDistinct :: "SqlQuery \<Rightarrow> error option" where
  "ruleMssqlDistinct params =
     (if client params = Mssql \<and> distinct_flag params \<and> orderBy params \<noteq> []
      then Some MssqlDistinctOrderBy else None)"

definition ruleLimitOrder :: "SqlQuery \<Rightarrow> error option" where
  "ruleLimitOrder params =
     (if (client params = Postgres \<or> client params = Mssql)
         \<and> truthyNumber (limit params) \<and> orderBy params = []
      then Some OrderByRequired else None)"

definition ruleGrouping :: "SqlQuery \<Rightarrow> error option" where
  "ruleGrouping params =
     (if (client params = Mysql \<or> client params = Mssql)
         \<and> groupBy params \<noteq> [] \<and> columns params \<noteq> [] \<and> notMappedColumns params \<noteq> []
      then Some ColumnsNotGrouped else None)"

definition ruleJoinOn :: "SqlQuery \<Rightarrow> error option" where
  "ruleJoinOn params = (if joins params \<noteq> [] then joinWithoutOn (joins params) else None)"

definition ruleWheres :: "SqlQuery \<Rightarrow> error option" where
  "ruleWheres params =
     (if length (tables params) > 1 \<and> wheres params = [] then Some WhereRequired else None)"

text \<open>The first error of a sequence of checks.\<close>

fun firstError :: "error option list \<Rightarrow> error option" where
  "firstError [] = None"
| "firstError (None # rs) = firstError rs"
| "firstError (Some e # rs) = Some e"



text \<open>The checks that run before the grouping check of mysql and mssql.\<close>

definition beforeGrouping :: "SqlQuery \<Rightarrow> error option" where
  "beforeGrouping params =
     firstError [ruleTables params, ruleCoupling params, ruleHaving params,
                 ruleAliasUnique params, ruleAliasResolution params, ruleSqlite params,
                 ruleMssqlDistinct params, ruleLimitOrder params]"

section \<open>The words of a string\<close>

text \<open>
  Two functions the proofs use, not the builder: \<open>rtrim\<close> removes the white space at the
  end of a string, \<open>wordsOf\<close> lists the maximal pieces of a string without white space.
\<close>

definition rtrim :: "string \<Rightarrow> string" where
  "rtrim s = rev (dropWhile isSpace (rev s))"

function wordsOf :: "string \<Rightarrow> string list" where
  "wordsOf s =
     (case dropWhile isSpace s of
        [] \<Rightarrow> []
      | c # cs \<Rightarrow>
          (c # takeWhile (\<lambda>x. \<not> isSpace x) cs) # wordsOf (dropWhile (\<lambda>x. \<not> isSpace x) cs))"
  by pat_completeness auto
termination
proof (relation "measure length", goal_cases)
  case 1
  show ?case by simp
next
  case (2 s c cs)
  have "length (dropWhile (\<lambda>x. \<not> isSpace x) cs) \<le> length cs"
    by (rule length_dropWhile_le)
  moreover have "length (dropWhile isSpace s) \<le> length s"
    by (rule length_dropWhile_le)
  ultimately show ?case using 2 by simp
qed

declare wordsOf.simps [simp del]

text \<open>The words of the template between the \<^verbatim>\<open>TOP\<close> piece and the \<^verbatim>\<open>LIMIT\<close> piece.\<close>

definition middleWords :: "SqlQuery \<Rightarrow> string list" where
  "middleWords q =
     wordsOf (distinctPart q) @ wordsOf (aggregatePart q) @ wordsOf (projectionPart q)
     @ [''FROM''] @ wordsOf (tablesString q) @ wordsOf (joinsPart q) @ wordsOf (wheresPart q)
     @ wordsOf (groupByPart q) @ wordsOf (havingPart q) @ wordsOf (orderByPart q)"

section \<open>Example specifications\<close>

text \<open>Example 1 of the specification, the basic usage of the README.\<close>

definition example1 :: SqlQuery where
  "example1 =
     \<lparr>distinct_flag = False, aggregate = None,
      columns = [ColumnObject ''users'' ''id'' None, ColumnObject ''users'' ''name'' None],
      tables = [TableObject ''users'' None], joins = [],
      wheres = [\<lparr>col = ColumnObject ''users'' ''status'' None, vals = [VString ''active''],
                 op = OpEq\<rparr>],
      groupBy = [], having = [], orderBy = [], limit = None, client = Mysql\<rparr>"

text \<open>Example 2 of the specification, the aggregation query of the README.\<close>

definition example2 :: SqlQuery where
  "example2 =
     \<lparr>distinct_flag = False,
      aggregate = Some \<lparr>agg_col = ColumnObject ''orders'' ''total'' None, agg_type = AggSum\<rparr>,
      columns = [], tables = [TableObject ''orders'' None], joins = [], wheres = [],
      groupBy = [ColumnObject ''orders'' ''status'' None],
      having = [\<lparr>col = ColumnObject ''orders'' ''total'' None, vals = [VNumber 1000],
                 op = OpGt\<rparr>],
      orderBy = [], limit = None, client = Mysql\<rparr>"

text \<open>The basic test of the test file: one table, nothing else.\<close>

definition basicTest :: SqlQuery where
  "basicTest =
     \<lparr>distinct_flag = False, aggregate = None, columns = [],
      tables = [TableObject ''users'' None], joins = [], wheres = [], groupBy = [],
      having = [], orderBy = [], limit = None, client = Mysql\<rparr>"


text \<open>A limit of zero on postgres, without \<^verbatim>\<open>orderBy\<close>.\<close>

definition limitZeroNoOrder :: SqlQuery where
  "limitZeroNoOrder = basicTest\<lparr>limit := Some 0, client := Postgres\<rparr>"

text \<open>A string value that holds the word \<^verbatim>\<open>update\<close>.\<close>

definition updatedStatus :: SqlQuery where
  "updatedStatus =
     basicTest\<lparr>wheres := [\<lparr>col = ColumnString ''status'', vals = [VString ''updated''],
                          op = OpEq\<rparr>]\<rparr>"

text \<open>A column whose name holds the word \<^verbatim>\<open>create\<close>.\<close>

definition createdAtColumn :: SqlQuery where
  "createdAtColumn = basicTest\<lparr>columns := [ColumnString ''created_at'']\<rparr>"

text \<open>Limits: zero on mysql, and the limit of ten of the test file on mssql and mysql.\<close>

definition limitZeroMysql :: SqlQuery where
  "limitZeroMysql = basicTest\<lparr>limit := Some 0\<rparr>"

definition mssqlLimit :: SqlQuery where
  "mssqlLimit = basicTest\<lparr>orderBy := [''name ASC''], limit := Some 10, client := Mssql\<rparr>"

definition mysqlLimit :: SqlQuery where
  "mysqlLimit = basicTest\<lparr>orderBy := [''name ASC''], limit := Some 10\<rparr>"

text \<open>A count grouped by \<^verbatim>\<open>users.id\<close> on mysql, then with one selected column, given as
  a string and as an object.\<close>

definition groupedCount :: SqlQuery where
  "groupedCount =
     basicTest\<lparr>aggregate := Some \<lparr>agg_col = ColumnObject ''users'' ''id'' None,
                                  agg_type = AggCount\<rparr>,
               groupBy := [ColumnObject ''users'' ''id'' None]\<rparr>"

definition stringColumnNotGrouped :: SqlQuery where
  "stringColumnNotGrouped = groupedCount\<lparr>columns := [ColumnString ''users.email'']\<rparr>"

definition objectColumnNotGrouped :: SqlQuery where
  "objectColumnNotGrouped = groupedCount\<lparr>columns := [ColumnObject ''users'' ''name'' None]\<rparr>"

section \<open>The grouping rule in the words of the specification\<close>

text \<open>
  The specification asks of every selected column, plain strings included, that it appear
  in \<^verbatim>\<open>groupBy\<close> by name or be an aggregate-function expression. \<open>specNotGrouped\<close> is that
  reading: some selected column does neither, the name of a plain string being the string.
  It is compared with \<open>notMappedColumns\<close>, the check of the source.
\<close>

fun columnName :: "Column \<Rightarrow> string" where
  "columnName (ColumnString s) = s"
| "columnName (ColumnObject ta n a) = n"

definition specNotGrouped :: "SqlQuery \<Rightarrow> bool" where
  "specNotGrouped params =
     list_ex (\<lambda>c. columnName c \<notin> set (map columnName (groupBy params))
                  \<and> \<not> aggregateCall (columnName c)) (columns params)"

section \<open>Lemmas on white space and words\<close>

lemma trim_rtrim: "trim s = rtrim (dropWhile isSpace s)"
  by (simp add: trim_def rtrim_def)

lemma rtrim_append:
  "rtrim (a @ b) = (if \<forall>c\<in>set b. isSpace c then rtrim a else a @ rtrim b)"
  by (simp add: rtrim_def dropWhile_append)

lemma rtrim_Nil [simp]: "rtrim [] = []"
  by (simp add: rtrim_def)

lemma rtrim_Cons:
  "rtrim (c # cs) = (if \<forall>x\<in>set (c # cs). isSpace x then [] else c # rtrim cs)"
  using rtrim_append [of "[c]" cs] by (auto simp: rtrim_def)

lemma rtrim_allSpace: "\<forall>c\<in>set s. isSpace c \<Longrightarrow> rtrim s = []"
  by (induction s) (simp_all add: rtrim_Cons)

lemma rtrim_noSpace: "\<forall>c\<in>set s. \<not> isSpace c \<Longrightarrow> rtrim s = s"
  by (induction s) (simp_all add: rtrim_Cons)

lemma ltrim_rtrim: "dropWhile isSpace (rtrim s) = rtrim (dropWhile isSpace s)"
proof (induction s)
  case Nil
  show ?case by simp
next
  case (Cons c cs)
  show ?case
  proof (cases "isSpace c")
    case True
    with Cons show ?thesis by (auto simp: rtrim_Cons rtrim_allSpace)
  next
    case False
    then show ?thesis by (simp add: rtrim_Cons)
  qed
qed

lemma replaceSpaces_noSpace:
  "\<forall>c\<in>set w. \<not> isSpace c \<Longrightarrow> replaceSpaces (w @ s) = w @ replaceSpaces s"
  by (induction w) simp_all

lemma wordsOf_Nil_iff: "wordsOf s = [] \<longleftrightarrow> (\<forall>c\<in>set s. isSpace c)"
proof (cases "dropWhile isSpace s")
  case Nil
  have "wordsOf s = []"
    by (subst wordsOf.simps) (simp only: Nil list.case)
  moreover from Nil have "\<forall>c\<in>set s. isSpace c"
    by (simp add: dropWhile_eq_Nil_conv)
  ultimately show ?thesis by simp
next
  case (Cons c cs)
  have "wordsOf s \<noteq> []"
    by (subst wordsOf.simps) (simp only: Cons list.case, simp)
  moreover have "\<not> (\<forall>c\<in>set s. isSpace c)"
    using Cons by (metis dropWhile_eq_Nil_conv list.distinct(1))
  ultimately show ?thesis by simp
qed

lemma join_Cons: "join sep (x # xs) = (if xs = [] then x else x @ sep @ join sep xs)"
  by (cases xs) simp_all

lemma normalize_words: "replaceSpaces (trim s) = join '' '' (wordsOf s)"
proof (induction s rule: wordsOf.induct)
  case (1 s)
  show ?case
  proof (cases "dropWhile isSpace s")
    case Nil
    have "trim s = []" unfolding trim_rtrim Nil by simp
    moreover have "wordsOf s = []" by (subst wordsOf.simps) (simp only: Nil list.case)
    ultimately show ?thesis by simp
  next
    case (Cons c cs)
    define w where "w = takeWhile (\<lambda>x. \<not> isSpace x) cs"
    define r where "r = dropWhile (\<lambda>x. \<not> isSpace x) cs"
    have c: "\<not> isSpace c" using Cons hd_dropWhile [of isSpace s] by auto
    have cs: "cs = w @ r" by (simp add: w_def r_def)
    have w: "\<forall>x\<in>set (c # w). \<not> isSpace x"
      using c by (auto simp: w_def dest: set_takeWhileD)
    have ws: "wordsOf s = (c # w) # wordsOf r"
      by (subst wordsOf.simps) (simp add: Cons w_def r_def)
    have IH: "replaceSpaces (trim r) = join '' '' (wordsOf r)"
      using 1 [OF Cons] by (simp add: r_def)
    show ?thesis
    proof (cases "\<forall>x\<in>set r. isSpace x")
      case True
      then have "trim s = c # w"
        using rtrim_append [of "c # w" r] rtrim_noSpace [OF w] by (simp add: trim_rtrim Cons cs)
      moreover have "wordsOf r = []" using True by (simp add: wordsOf_Nil_iff)
      ultimately show ?thesis
        using replaceSpaces_noSpace [OF w, of "[]"] by (simp add: ws)
    next
      case False
      then have rne: "r \<noteq> []" by auto
      then obtain sp r' where r: "r = sp # r'" by (cases r) auto
      have sp: "isSpace sp" using hd_dropWhile [of "\<lambda>x. \<not> isSpace x" cs] rne r by (auto simp: r_def)
      have "trim s = (c # w) @ rtrim r"
        using rtrim_append [of "c # w" r] False by (simp add: trim_rtrim Cons cs)
      then have "replaceSpaces (trim s) = (c # w) @ replaceSpaces (rtrim r)"
        using replaceSpaces_noSpace [OF w] by simp
      moreover have "rtrim r = sp # rtrim r'" using False by (simp add: r rtrim_Cons)
      moreover have "dropWhile isSpace (rtrim r') = trim r"
        using sp by (simp add: ltrim_rtrim trim_rtrim r)
      moreover have "wordsOf r \<noteq> []" using False by (simp add: wordsOf_Nil_iff)
      ultimately show ?thesis
        using sp IH by (simp add: ws join_Cons)
    qed
  qed
qed


lemma wordsOf_Nil [simp]: "wordsOf [] = []"
  by (simp add: wordsOf_Nil_iff)

lemma wordsOf_ltrim: "wordsOf (dropWhile isSpace s) = wordsOf s"
  by (subst (1 2) wordsOf.simps) simp

lemma wordsOf_space_Cons: "isSpace c \<Longrightarrow> wordsOf (c # s) = wordsOf s"
  using wordsOf_ltrim [of "c # s"] wordsOf_ltrim [of s] by simp

lemma takeWhile_word_append:
  "isSpace sp \<Longrightarrow> takeWhile (\<lambda>x. \<not> isSpace x) (cs @ sp # b) = takeWhile (\<lambda>x. \<not> isSpace x) cs"
  by (induction cs) simp_all

lemma dropWhile_word_append:
  "isSpace sp \<Longrightarrow>
   dropWhile (\<lambda>x. \<not> isSpace x) (cs @ sp # b) = dropWhile (\<lambda>x. \<not> isSpace x) cs @ sp # b"
  by (induction cs) simp_all

lemma wordsOf_append:
  assumes sp: "isSpace sp"
  shows "wordsOf (a @ sp # b) = wordsOf a @ wordsOf b"
proof (induction a rule: wordsOf.induct)
  case (1 a)
  show ?case
  proof (cases "dropWhile isSpace a")
    case Nil
    then have all: "\<forall>c\<in>set a. isSpace c" by (simp add: dropWhile_eq_Nil_conv)
    then have "dropWhile isSpace (a @ sp # b) = dropWhile isSpace b"
      using sp by (simp add: dropWhile_append)
    then have "wordsOf (a @ sp # b) = wordsOf b"
      using wordsOf_ltrim [of "a @ sp # b"] wordsOf_ltrim [of b] by simp
    moreover have "wordsOf a = []" using all by (simp add: wordsOf_Nil_iff)
    ultimately show ?thesis by simp
  next
    case (Cons c cs)
    have ne: "\<not> (\<forall>c\<in>set a. isSpace c)"
      using Cons by (metis dropWhile_eq_Nil_conv list.distinct(1))
    have d: "dropWhile isSpace (a @ sp # b) = c # (cs @ sp # b)"
      using ne Cons by (auto simp: dropWhile_append)
    have "wordsOf (a @ sp # b) =
        (c # takeWhile (\<lambda>x. \<not> isSpace x) cs) # wordsOf (dropWhile (\<lambda>x. \<not> isSpace x) cs @ sp # b)"
      by (subst wordsOf.simps)
         (simp only: d list.case takeWhile_word_append [OF sp] dropWhile_word_append [OF sp])
    moreover have "wordsOf a =
        (c # takeWhile (\<lambda>x. \<not> isSpace x) cs) # wordsOf (dropWhile (\<lambda>x. \<not> isSpace x) cs)"
      by (subst wordsOf.simps) (simp only: Cons list.case)
    ultimately show ?thesis using 1 [OF Cons] by simp
  qed
qed

lemma wordsOf_word:
  assumes "w \<noteq> []" and "\<forall>c\<in>set w. \<not> isSpace c"
  shows "wordsOf w = [w]"
proof -
  obtain c cs where w: "w = c # cs" using assms(1) by (cases w) auto
  have d: "dropWhile isSpace (c # cs) = c # cs" using assms(2) by (simp add: w)
  have t: "takeWhile (\<lambda>x. \<not> isSpace x) cs = cs" "dropWhile (\<lambda>x. \<not> isSpace x) cs = []"
    using assms(2) by (simp_all add: w)
  show ?thesis
    unfolding w by (subst wordsOf.simps) (simp only: d list.case t wordsOf_Nil)
qed

lemma isSpace_space [simp]: "isSpace (CHR '' '')"
  by (simp add: isSpace_def)

lemma wordsOf_template:
  "wordsOf (template q) =
     [''SELECT''] @ wordsOf (topPart q) @ wordsOf (distinctPart q) @ wordsOf (aggregatePart q)
     @ wordsOf (projectionPart q) @ [''FROM''] @ wordsOf (tablesString q) @ wordsOf (joinsPart q)
     @ wordsOf (wheresPart q) @ wordsOf (groupByPart q) @ wordsOf (havingPart q)
     @ wordsOf (orderByPart q) @ wordsOf (limitPart q)"
proof -
  have sel: "wordsOf ''SELECT'' = [''SELECT'']"
    by (rule wordsOf_word) (simp_all add: isSpace_def)
  have frm: "wordsOf ''FROM'' = [''FROM'']"
    by (rule wordsOf_word) (simp_all add: isSpace_def)
  have t: "template q =
     ''SELECT'' @ CHR '' '' # (topPart q @ CHR '' '' # (distinctPart q @ CHR '' '' # (aggregatePart q
       @ CHR '' '' # (projectionPart q @ CHR '' '' # (''FROM'' @ CHR '' '' # (tablesString q
       @ CHR '' '' # (joinsPart q @ CHR '' '' # (wheresPart q @ CHR '' '' # (groupByPart q
       @ CHR '' '' # (havingPart q @ CHR '' '' # (orderByPart q @ CHR '' '' # limitPart q)))))))))))"
    by (simp add: template_def)
  show ?thesis
    unfolding t by (simp only: wordsOf_append [OF isSpace_space] sel frm append_assoc)
qed

lemma query_words:
  "query q = join '' ''
     ([''SELECT''] @ wordsOf (topPart q) @ wordsOf (distinctPart q) @ wordsOf (aggregatePart q)
     @ wordsOf (projectionPart q) @ [''FROM''] @ wordsOf (tablesString q) @ wordsOf (joinsPart q)
     @ wordsOf (wheresPart q) @ wordsOf (groupByPart q) @ wordsOf (havingPart q)
     @ wordsOf (orderByPart q) @ wordsOf (limitPart q))"
  by (simp only: query_def normalize_words wordsOf_template)


section \<open>Lemmas on the order of the checks\<close>

lemma firstError_Cons:
  "firstError (x # rs) = (case x of None \<Rightarrow> firstError rs | Some e \<Rightarrow> Some e)"
  by (cases x) simp_all


lemma firstError_if:
  "firstError ((if c then Some e else None) # rs) = (if c then Some e else firstError rs)"
  by simp


lemma firstError_aliasResolution:
  "firstError (ruleAliasResolution q # rs) =
     (if columns q \<noteq> [] \<and> invalidColumn (tables q) (columns q) \<noteq> None
      then invalidColumn (tables q) (columns q) else firstError rs)"
  by (cases "invalidColumn (tables q) (columns q)") (simp_all add: ruleAliasResolution_def)

lemma firstError_joinOn:
  "firstError (ruleJoinOn q # rs) =
     (if joins q \<noteq> [] \<and> joinWithoutOn (joins q) \<noteq> None
      then joinWithoutOn (joins q) else firstError rs)"
  by (cases "joinWithoutOn (joins q)") (simp_all add: ruleJoinOn_def)

lemma firstError_sqlite:
  "firstError (ruleSqlite q # rs) =
     (if client q = Sqlite \<and> having q \<noteq> [] then Some SqliteHaving
      else if client q = Sqlite
             \<and> list_ex (\<lambda>j. jtype j = JoinRight \<or> jtype j = JoinFull) (joins q)
        then Some SqliteJoin
      else firstError rs)"
  by (simp add: ruleSqlite_def)

lemma validations_checks:
  "validations q =
     firstError [ruleTables q, ruleCoupling q, ruleHaving q, ruleAliasUnique q,
       ruleAliasResolution q, ruleSqlite q, ruleMssqlDistinct q, ruleLimitOrder q,
       ruleGrouping q, ruleJoinOn q, ruleWheres q]"
  by (simp only: validations_def firstError_aliasResolution firstError_joinOn firstError_sqlite
      ruleTables_def ruleCoupling_def ruleHaving_def ruleAliasUnique_def ruleMssqlDistinct_def
      ruleLimitOrder_def ruleGrouping_def ruleWheres_def firstError_if firstError.simps(1))




lemma firstError_mem: "firstError xs = Some e \<Longrightarrow> Some e \<in> set xs"
  by (induction xs rule: firstError.induct) simp_all

lemma invalidColumn_error:
  "invalidColumn ts cs = Some e \<Longrightarrow> \<exists>n ta. e = InvalidTableAlias n ta"
  by (induction ts cs rule: invalidColumn.induct) (auto split: if_splits)

lemma joinWithoutOn_error:
  "joinWithoutOn js = Some e \<Longrightarrow> \<exists>t. e = JoinConditionRequired t"
  by (induction js) (auto split: if_splits)

lemma limit_rule_only:
  assumes "validations q = Some OrderByRequired"
  shows "ruleLimitOrder q = Some OrderByRequired"
proof -
  have "Some OrderByRequired \<in> set [ruleTables q, ruleCoupling q, ruleHaving q,
      ruleAliasUnique q, ruleAliasResolution q, ruleSqlite q, ruleMssqlDistinct q,
      ruleLimitOrder q, ruleGrouping q, ruleJoinOn q, ruleWheres q]"
    using assms firstError_mem unfolding validations_checks by blast
  moreover have "ruleTables q \<noteq> Some OrderByRequired" by (simp add: ruleTables_def)
  moreover have "ruleCoupling q \<noteq> Some OrderByRequired" by (simp add: ruleCoupling_def)
  moreover have "ruleHaving q \<noteq> Some OrderByRequired" by (simp add: ruleHaving_def)
  moreover have "ruleAliasUnique q \<noteq> Some OrderByRequired" by (simp add: ruleAliasUnique_def)
  moreover have "ruleAliasResolution q \<noteq> Some OrderByRequired"
    using invalidColumn_error [of "tables q" "columns q" OrderByRequired]
    by (auto simp: ruleAliasResolution_def)
  moreover have "ruleSqlite q \<noteq> Some OrderByRequired" by (simp add: ruleSqlite_def)
  moreover have "ruleMssqlDistinct q \<noteq> Some OrderByRequired"
    by (simp add: ruleMssqlDistinct_def)
  moreover have "ruleGrouping q \<noteq> Some OrderByRequired" by (simp add: ruleGrouping_def)
  moreover have "ruleJoinOn q \<noteq> Some OrderByRequired"
    using joinWithoutOn_error [of "joins q" OrderByRequired] by (auto simp: ruleJoinOn_def)
  moreover have "ruleWheres q \<noteq> Some OrderByRequired" by (simp add: ruleWheres_def)
  ultimately show ?thesis by simp
qed

section \<open>The examples of the README\<close>

text \<open>
  C2: for Example 1 the specification gives the statement
  \<^verbatim>\<open>SELECT users.id, users.name FROM users WHERE users.status = 'active'\<close>, as the README
  does. The builder validates the example and fulfils its promise with another text: the
  projection entries are the bare names, and the string value is printed without quotes.
\<close>

theorem example1_result:
  "buildSqlQuery example1
     = Inr (Fulfilled ''SELECT id, name FROM users WHERE users.status = active'')"
  by code_simp

text \<open>
  C3: with an aggregate present the projection should be \<^verbatim>\<open>TYPE(column)\<close> alone. The piece
  of the template after the aggregate is \<^verbatim>\<open>*\<close> whenever an aggregate is present, so the
  statement of Example 2 reads \<^verbatim>\<open>SELECT SUM(orders.total) * FROM orders ...\<close>.
\<close>

theorem aggregate_projection_star:
  "projectionPart (q\<lparr>aggregate := Some a\<rparr>) = ''*''
   \<and> buildSqlQuery example2
     = Inr (Fulfilled
         ''SELECT SUM(orders.total) * FROM orders GROUP BY orders.status HAVING orders.total > 1000'')"
  by (rule conjI, simp add: projectionPart_def, code_simp)

text \<open>
  C4: an object column of the projection list should print as \<^verbatim>\<open>tableAlias.name\<close>, then
  \<^verbatim>\<open>AS alias\<close>. The projection prints the name without the table alias, while
  \<^verbatim>\<open>columnString\<close>, used in predicates and joins, prints the qualified name.
\<close>

theorem projection_entry_unqualified:
  "projectionString (ColumnObject ta n None) = n
   \<and> projectionString (ColumnObject ta n (Some (x # xs))) = n @ '' AS '' @ x # xs
   \<and> columnString (ColumnObject ta n a) = ta @ ''.'' @ n
   \<and> buildSqlQuery (basicTest\<lparr>columns := [ColumnObject ''users'' ''id'' (Some ''uid'')]\<rparr>)
       = Inr (Fulfilled ''SELECT id AS uid FROM users'')"
proof -
  have "buildSqlQuery (basicTest\<lparr>columns := [ColumnObject ''users'' ''id'' (Some ''uid'')]\<rparr>)
       = Inr (Fulfilled ''SELECT id AS uid FROM users'')"
    by code_simp
  then show ?thesis by simp
qed

text \<open>
  C5: a comparison operator with one string value \<open>v\<close> should print as \<^verbatim>\<open>OP 'v'\<close>. The
  default case of \<^verbatim>\<open>valuesString\<close> tests the type of the array, not of its element, and
  prints the value without quotes.
\<close>

theorem comparison_string_unquoted:
  "valuesString OpEq [VString v] = ''= '' @ v
   \<and> valuesString OpLt [VString v] = ''< '' @ v
   \<and> valuesString OpGt [VString v] = ''> '' @ v
   \<and> valuesString OpLe [VString v] = ''<= '' @ v
   \<and> valuesString OpGe [VString v] = ''>= '' @ v
   \<and> valuesString OpNe [VString v] = ''!= '' @ v
   \<and> valuesString OpEq [VString ''active''] = ''= active''"
  by simp

section \<open>The order of the checks\<close>



section \<open>A limit of zero\<close>

text \<open>
  C10: a limit of \<open>0\<close> is treated as an absent limit. Neither \<^verbatim>\<open>TOP\<close> nor \<^verbatim>\<open>LIMIT\<close> is
  printed, whatever the dialect; the check that a limit needs an \<^verbatim>\<open>orderBy\<close> does not
  fire; validation and the result are those of the same specification without a limit.
\<close>

theorem limit_zero_absent:
  assumes "limit q = Some 0"
  shows "topPart q = [] \<and> limitPart q = []
    \<and> query q = query (q\<lparr>limit := None\<rparr>)
    \<and> ruleLimitOrder q = None
    \<and> validations q \<noteq> Some OrderByRequired
    \<and> validations q = validations (q\<lparr>limit := None\<rparr>)
    \<and> buildSqlQuery q = buildSqlQuery (q\<lparr>limit := None\<rparr>)"
proof -
  have parts: "topPart q = []" "limitPart q = []"
    using assms by (simp_all add: topPart_def limitPart_def)
  have t: "template q = template (q\<lparr>limit := None\<rparr>)"
    using assms
    by (simp add: template_def topPart_def limitPart_def distinctPart_def aggregatePart_def
        projectionPart_def columnsString_def tablesString_def joinsPart_def joinsString_def
        wheresPart_def wheresString_def groupByPart_def groupByString_def havingPart_def
        havingString_def orderByPart_def orderByString_def)
  then have qq: "query q = query (q\<lparr>limit := None\<rparr>)"
    by (simp add: query_def)
  have r: "ruleLimitOrder q = None"
    using assms by (simp add: ruleLimitOrder_def)
  have r0: "ruleLimitOrder (q\<lparr>limit := None\<rparr>) = None"
    by (simp add: ruleLimitOrder_def)
  have others:
    "ruleTables (q\<lparr>limit := None\<rparr>) = ruleTables q"
    "ruleCoupling (q\<lparr>limit := None\<rparr>) = ruleCoupling q"
    "ruleHaving (q\<lparr>limit := None\<rparr>) = ruleHaving q"
    "ruleAliasUnique (q\<lparr>limit := None\<rparr>) = ruleAliasUnique q"
    "ruleAliasResolution (q\<lparr>limit := None\<rparr>) = ruleAliasResolution q"
    "ruleSqlite (q\<lparr>limit := None\<rparr>) = ruleSqlite q"
    "ruleMssqlDistinct (q\<lparr>limit := None\<rparr>) = ruleMssqlDistinct q"
    "ruleGrouping (q\<lparr>limit := None\<rparr>) = ruleGrouping q"
    "ruleJoinOn (q\<lparr>limit := None\<rparr>) = ruleJoinOn q"
    "ruleWheres (q\<lparr>limit := None\<rparr>) = ruleWheres q"
    by (simp_all add: ruleTables_def ruleCoupling_def ruleHaving_def ruleAliasUnique_def
        ruleAliasResolution_def ruleSqlite_def ruleMssqlDistinct_def ruleGrouping_def
        ruleJoinOn_def ruleWheres_def notMappedColumns_def)
  have v: "validations q = validations (q\<lparr>limit := None\<rparr>)"
    by (simp only: validations_checks others r r0)
  have n: "validations q \<noteq> Some OrderByRequired"
    using limit_rule_only [of q] r by auto
  have b: "buildSqlQuery q = buildSqlQuery (q\<lparr>limit := None\<rparr>)"
    by (simp only: buildSqlQuery_def v [symmetric] qq [symmetric])
  from parts qq r n v b show ?thesis by simp
qed

theorem limit_zero_absent_witness:
  "limit limitZeroNoOrder = Some 0 \<and> client limitZeroNoOrder = Postgres
   \<and> orderBy limitZeroNoOrder = []
   \<and> validations limitZeroNoOrder = None
   \<and> buildSqlQuery limitZeroNoOrder = Inr (Fulfilled ''SELECT * FROM users'')"
proof -
  have l: "limit limitZeroNoOrder = Some 0"
    by (simp add: limitZeroNoOrder_def)
  have b: "buildSqlQuery (limitZeroNoOrder\<lparr>limit := None\<rparr>) = Inr (Fulfilled ''SELECT * FROM users'')"
    by code_simp
  have v: "validations (limitZeroNoOrder\<lparr>limit := None\<rparr>) = None"
    by code_simp
  have f: "client limitZeroNoOrder = Postgres" "orderBy limitZeroNoOrder = []"
    by (simp_all add: limitZeroNoOrder_def basicTest_def)
  show ?thesis
    using limit_zero_absent [OF l] b v f l by simp
qed


section \<open>Lemmas on the assembled statement\<close>

lemma join_append:
  "xs \<noteq> [] \<Longrightarrow> ys \<noteq> [] \<Longrightarrow> join sep (xs @ ys) = join sep xs @ sep @ join sep ys"
  by (induction xs) (simp_all add: join_Cons)

lemma query_middle:
  "query q = join '' '' (''SELECT'' # wordsOf (topPart q) @ middleWords q @ wordsOf (limitPart q))"
  by (simp add: query_words middleWords_def)

lemma middleWords_ne: "middleWords q \<noteq> []"
  by (simp add: middleWords_def)

lemma middleWords_limit: "middleWords (q\<lparr>limit := l\<rparr>) = middleWords q"
  by (simp add: middleWords_def distinctPart_def aggregatePart_def
        projectionPart_def columnsString_def tablesString_def joinsPart_def joinsString_def
        wheresPart_def wheresString_def groupByPart_def groupByString_def havingPart_def
        havingString_def orderByPart_def orderByString_def)

lemma digit_noSpace: "d < 10 \<Longrightarrow> \<not> isSpace (digit d)"
proof -
  assume "d < 10"
  then have "d \<in> {0, 1, 2, 3, 4, 5, 6, 7, 8, 9}" by auto
  then show ?thesis by (auto simp: digit_def isSpace_def)
qed

lemma natToString_noSpace: "\<forall>c\<in>set (natToString n). \<not> isSpace c"
proof (induction n rule: natToString.induct)
  case (1 n)
  show ?case
  proof (cases "n < 10")
    case True
    then show ?thesis by (subst natToString.simps) (simp add: digit_noSpace)
  next
    case False
    have "n mod 10 < 10" by simp
    then have "\<not> isSpace (digit (n mod 10))" by (rule digit_noSpace)
    with False 1 show ?thesis by (subst natToString.simps) simp
  qed
qed

lemma natToString_ne: "natToString n \<noteq> []"
  by (subst natToString.simps) simp

lemma numberToString_word: "wordsOf (numberToString n) = [numberToString n]"
proof (rule wordsOf_word)
  show "numberToString n \<noteq> []" by (simp add: numberToString_def natToString_ne)
  show "\<forall>c\<in>set (numberToString n). \<not> isSpace c"
    using natToString_noSpace by (simp add: numberToString_def isSpace_def)
qed

lemma wordsOf_keyword_number:
  assumes "kw \<noteq> []" "\<forall>c\<in>set kw. \<not> isSpace c"
  shows "wordsOf (kw @ CHR '' '' # numberToString n) = [kw, numberToString n]"
  using wordsOf_append [OF isSpace_space, of kw "numberToString n"]
    wordsOf_word [OF assms] numberToString_word [of n] by simp

lemma rtrim_select: "prefix ''SELECT'' (rtrim (''SELECT'' @ r))"
proof -
  have "rtrim ''SELECT'' = ''SELECT''"
    by (rule rtrim_noSpace) (simp add: isSpace_def)
  then show ?thesis
    using rtrim_append [of "''SELECT''" r] by (cases "\<forall>c\<in>set r. isSpace c") simp_all
qed

lemma startsWithSelect_select: "startsWithSelect (''SELECT'' @ r)"
proof -
  have "\<not> isSpace (CHR ''S'')" by (simp add: isSpace_def)
  then have "trim (''SELECT'' @ r) = rtrim (''SELECT'' @ r)"
    by (simp add: trim_rtrim)
  then obtain z where "trim (''SELECT'' @ r) = ''SELECT'' @ z"
    using rtrim_select [of r] by (auto simp: prefix_def)
  moreover have "map toUpper ''SELECT'' = ''SELECT''" by (simp add: toUpper_def)
  ultimately show ?thesis
    by (simp add: startsWithSelect_def del: append.simps list.map)
qed

lemma query_select: "\<exists>r. query q = ''SELECT'' @ r"
proof -
  have "wordsOf (topPart q) @ middleWords q @ wordsOf (limitPart q) \<noteq> []"
    using middleWords_ne by simp
  then show ?thesis
    unfolding query_middle by (simp add: join_Cons del: append.simps)
qed

lemma executor_Pending:
  "executor t Pending =
     (if sqlInjectionPattern t then Rejected PossibleInjection
      else if \<not> startsWithSelect t then Rejected OnlySelect
      else Fulfilled t)"
  by (simp add: executor_def)

lemma firstError_append:
  "firstError (xs @ ys) = (case firstError xs of None \<Rightarrow> firstError ys | Some e \<Rightarrow> Some e)"
  by (induction xs rule: firstError.induct) simp_all

lemma groupByColumns_iff:
  "n \<in> groupByColumns gs \<longleftrightarrow> (\<exists>ta a. ColumnObject ta n a \<in> set gs)"
  by (induction gs rule: groupByColumns.induct) auto

lemma notMappedColumns_iff:
  "notMappedColumns q \<noteq> [] \<longleftrightarrow>
     (\<exists>ta n a. ColumnObject ta n a \<in> set (columns q)
        \<and> (\<forall>ta' a'. ColumnObject ta' n a' \<notin> set (groupBy q)) \<and> \<not> aggregateCall n)"
proof -
  have "notMappedColumns q \<noteq> [] \<longleftrightarrow>
      (\<exists>c\<in>set (columns q). notMapped (groupByColumns (groupBy q)) c)"
    by (simp add: notMappedColumns_def filter_empty_conv)
  also have "\<dots> \<longleftrightarrow> (\<exists>ta n a. ColumnObject ta n a \<in> set (columns q)
        \<and> n \<notin> groupByColumns (groupBy q) \<and> \<not> aggregateCall n)"
  proof
    assume "\<exists>c\<in>set (columns q). notMapped (groupByColumns (groupBy q)) c"
    then obtain c where c: "c \<in> set (columns q)" "notMapped (groupByColumns (groupBy q)) c"
      by blast
    show "\<exists>ta n a. ColumnObject ta n a \<in> set (columns q)
        \<and> n \<notin> groupByColumns (groupBy q) \<and> \<not> aggregateCall n"
    proof (cases c)
      case (ColumnString s)
      with c(2) show ?thesis by simp
    next
      case (ColumnObject ta n a)
      with c show ?thesis by auto
    qed
  next
    assume "\<exists>ta n a. ColumnObject ta n a \<in> set (columns q)
        \<and> n \<notin> groupByColumns (groupBy q) \<and> \<not> aggregateCall n"
    then obtain ta n a where "ColumnObject ta n a \<in> set (columns q)"
      "notMapped (groupByColumns (groupBy q)) (ColumnObject ta n a)" by auto
    then show "\<exists>c\<in>set (columns q). notMapped (groupByColumns (groupBy q)) c" by blast
  qed
  finally show ?thesis by (simp add: groupByColumns_iff)
qed

lemma after_grouping_error:
  "firstError [ruleJoinOn q, ruleWheres q] \<noteq> Some ColumnsNotGrouped"
proof
  assume "firstError [ruleJoinOn q, ruleWheres q] = Some ColumnsNotGrouped"
  then have "Some ColumnsNotGrouped \<in> set [ruleJoinOn q, ruleWheres q]"
    by (rule firstError_mem)
  moreover have "ruleJoinOn q \<noteq> Some ColumnsNotGrouped"
    using joinWithoutOn_error [of "joins q" ColumnsNotGrouped] by (auto simp: ruleJoinOn_def)
  moreover have "ruleWheres q \<noteq> Some ColumnsNotGrouped" by (simp add: ruleWheres_def)
  ultimately show False by simp
qed

lemma validations_after:
  assumes "beforeGrouping q = None"
  shows "validations q = firstError [ruleGrouping q, ruleJoinOn q, ruleWheres q]"
proof -
  have "validations q =
      firstError ([ruleTables q, ruleCoupling q, ruleHaving q, ruleAliasUnique q,
          ruleAliasResolution q, ruleSqlite q, ruleMssqlDistinct q, ruleLimitOrder q]
        @ [ruleGrouping q, ruleJoinOn q, ruleWheres q])"
    by (simp only: validations_checks append.simps)
  then show ?thesis
    using assms by (simp only: firstError_append beforeGrouping_def option.case)
qed

section \<open>The final check of the statement\<close>

text \<open>
  C1: when the final check finds a violation (the statement matches the forbidden pattern
  or does not start with \<^verbatim>\<open>SELECT\<close>), the caller gets a failure and never the statement.
  The executor calls \<^verbatim>\<open>reject\<close> and goes on to \<^verbatim>\<open>resolve(query)\<close>, but a settled
  promise stays as it is: the promise is rejected, with the error of the first check that
  fired, and it is never fulfilled.
\<close>

theorem guard_violation_rejects:
  assumes "sqlInjectionPattern (query params) \<or> \<not> startsWithSelect (query params)"
  shows "(\<forall>s. buildSqlQuery params \<noteq> Inr (Fulfilled s))
    \<and> (\<forall>s. executor (query params) Pending \<noteq> Fulfilled s)
    \<and> (validations params = None \<longrightarrow>
          buildSqlQuery params
            = Inr (Rejected (if sqlInjectionPattern (query params) then PossibleInjection
                             else OnlySelect)))
    \<and> resolve (query params) (reject e Pending) = Rejected e"
  using assms
  by (cases "validations params") (auto simp: buildSqlQuery_def executor_Pending)

theorem guard_violation_rejects_witness:
  "sqlInjectionPattern (query updatedStatus)
   \<and> validations updatedStatus = None
   \<and> query updatedStatus = ''SELECT * FROM users WHERE status = updated''
   \<and> buildSqlQuery updatedStatus = Inr (Rejected PossibleInjection)"
proof -
  have h: "sqlInjectionPattern (query updatedStatus)" by code_simp
  have v: "validations updatedStatus = None" by code_simp
  have q: "query updatedStatus = ''SELECT * FROM users WHERE status = updated''" by code_simp
  have "buildSqlQuery updatedStatus = Inr (Rejected PossibleInjection)"
    using guard_violation_rejects [of updatedStatus] h v by simp
  with h v q show ?thesis by simp
qed


text \<open>
  A specification that passes validation and is still rejected by the final check: the
  column \<^verbatim>\<open>created_at\<close> holds the forbidden word \<^verbatim>\<open>create\<close>.
\<close>

theorem guard_on_validated_counterexample:
  "validations createdAtColumn = None
   \<and> query createdAtColumn = ''SELECT created_at FROM users''
   \<and> sqlInjectionPattern (query createdAtColumn)
   \<and> buildSqlQuery createdAtColumn = Inr (Rejected PossibleInjection)"
  by code_simp

text \<open>
  C6, amended: for every specification that passes validation the statement starts with
  \<^verbatim>\<open>SELECT\<close>, so the second error of the final check is never reported; the first one is
  reported exactly when the statement holds a forbidden token, and otherwise the promise
  is fulfilled with the statement.
\<close>

theorem guard_on_validated:
  assumes "validations q = None"
  shows "startsWithSelect (query q)
    \<and> buildSqlQuery q \<noteq> Inr (Rejected OnlySelect)
    \<and> buildSqlQuery q
        = Inr (if sqlInjectionPattern (query q) then Rejected PossibleInjection
               else Fulfilled (query q))"
proof -
  have s: "startsWithSelect (query q)"
    using query_select [of q] startsWithSelect_select by auto
  then show ?thesis using assms by (simp add: buildSqlQuery_def executor_def)
qed

theorem guard_on_validated_witness:
  "validations basicTest = None
   \<and> startsWithSelect (query basicTest)
   \<and> buildSqlQuery basicTest = Inr (Fulfilled ''SELECT * FROM users'')"
proof -
  have v: "validations basicTest = None" by code_simp
  have p: "\<not> sqlInjectionPattern (query basicTest)" by code_simp
  have q: "query basicTest = ''SELECT * FROM users''" by code_simp
  show ?thesis using guard_on_validated [OF v] v p q by simp
qed


section \<open>The limit by dialect\<close>

text \<open>
  A limit that is set and prints nothing: zero, on mysql.
\<close>

theorem limit_clause_counterexample:
  "limit limitZeroMysql = Some 0 \<and> client limitZeroMysql = Mysql
   \<and> validations limitZeroMysql = None
   \<and> buildSqlQuery limitZeroMysql = Inr (Fulfilled ''SELECT * FROM users'')
   \<and> \<not> suffix ''LIMIT 0'' (query limitZeroMysql)"
  by code_simp

text \<open>
  C8, amended: for every specification with a limit \<open>n\<close> other than zero and with
  \<open>\<bar>n\<bar> < 2^53\<close> (the integers a JavaScript number prints digit by digit), on mssql the
  statement is that of the same specification without limit with \<^verbatim>\<open>TOP n\<close> put right
  after \<^verbatim>\<open>SELECT\<close>, and the \<^verbatim>\<open>LIMIT\<close> piece is empty; on every other dialect it is the
  statement without limit followed by \<^verbatim>\<open>LIMIT n\<close>, and the \<^verbatim>\<open>TOP\<close> piece is empty; the
  two pieces are never both printed.
\<close>

theorem limit_clause_by_dialect:
  assumes "limit q = Some n" and "n \<noteq> 0" and "\<bar>n\<bar> < 2 ^ 53"
  shows "(client q = Mssql \<longrightarrow>
            limitPart q = []
            \<and> (\<exists>rest. query (q\<lparr>limit := None\<rparr>) = ''SELECT '' @ rest
                 \<and> query q = ''SELECT TOP '' @ numberToString n @ '' '' @ rest))
       \<and> (client q \<noteq> Mssql \<longrightarrow>
            topPart q = []
            \<and> query q = query (q\<lparr>limit := None\<rparr>) @ '' LIMIT '' @ numberToString n)
       \<and> (topPart q = [] \<or> limitPart q = [])"
proof -
  have q0: "query (q\<lparr>limit := None\<rparr>) = join '' '' (''SELECT'' # middleWords q)"
    by (simp add: query_middle middleWords_limit topPart_def limitPart_def)
  have sel: "join '' '' (''SELECT'' # middleWords q) = ''SELECT '' @ join '' '' (middleWords q)"
    using middleWords_ne [of q] by (simp add: join_Cons)
  show ?thesis
  proof (cases "client q = Mssql")
    case True
    have top: "wordsOf (topPart q) = [''TOP'', numberToString n]"
      using wordsOf_keyword_number [of "''TOP''" n] assms(1,2) True
      by (simp add: topPart_def isSpace_def)
    have lim: "limitPart q = []" using True by (simp add: limitPart_def)
    have "query q = join '' '' (''SELECT'' # ''TOP'' # numberToString n # middleWords q)"
      by (simp add: query_middle top lim)
    also have "\<dots> = ''SELECT TOP '' @ numberToString n @ '' '' @ join '' '' (middleWords q)"
      using middleWords_ne [of q] by (simp add: join_Cons)
    finally have "query q = ''SELECT TOP '' @ numberToString n @ '' '' @ join '' '' (middleWords q)" .
    with q0 sel lim True show ?thesis by simp
  next
    case False
    have lim: "wordsOf (limitPart q) = [''LIMIT'', numberToString n]"
      using wordsOf_keyword_number [of "''LIMIT''" n] assms(1,2) False
      by (simp add: limitPart_def isSpace_def)
    have top: "topPart q = []" using False by (simp add: topPart_def)
    have "query q = join '' '' ((''SELECT'' # middleWords q) @ [''LIMIT'', numberToString n])"
      by (simp add: query_middle top lim)
    also have "\<dots> = join '' '' (''SELECT'' # middleWords q) @ '' LIMIT '' @ numberToString n"
      by (subst join_append) simp_all
    finally have "query q = join '' '' (''SELECT'' # middleWords q) @ '' LIMIT '' @ numberToString n" .
    with q0 top False show ?thesis by simp
  qed
qed


theorem limit_clause_by_dialect_witness:
  "limit mssqlLimit = Some 10 \<and> client mssqlLimit = Mssql
   \<and> query mssqlLimit = ''SELECT TOP 10 * FROM users ORDER BY name ASC''
   \<and> limit mysqlLimit = Some 10 \<and> client mysqlLimit = Mysql
   \<and> query mysqlLimit = ''SELECT * FROM users ORDER BY name ASC LIMIT 10''"
proof -
  have n: "numberToString 10 = ''10''" by code_simp
  have z: "(10::int) \<noteq> 0" and b: "\<bar>10::int\<bar> < 2 ^ 53" by simp_all
  have l1: "limit mssqlLimit = Some 10" and c1: "client mssqlLimit = Mssql"
    by (simp_all add: mssqlLimit_def)
  have l2: "limit mysqlLimit = Some 10" and c2: "client mysqlLimit = Mysql"
    by (simp_all add: mysqlLimit_def basicTest_def)
  have q1: "query (mssqlLimit\<lparr>limit := None\<rparr>) = ''SELECT * FROM users ORDER BY name ASC''"
    by code_simp
  have q2: "query (mysqlLimit\<lparr>limit := None\<rparr>) = ''SELECT * FROM users ORDER BY name ASC''"
    by code_simp
  have "query mssqlLimit = ''SELECT TOP 10 * FROM users ORDER BY name ASC''"
    using limit_clause_by_dialect [OF l1 z b] c1 q1 n by auto
  moreover have "query mysqlLimit = ''SELECT * FROM users ORDER BY name ASC LIMIT 10''"
    using limit_clause_by_dialect [OF l2 z b] c2 q2 n by auto
  ultimately show ?thesis using l1 c1 l2 c2 by simp
qed

section \<open>The grouping check of mysql and mssql\<close>

text \<open>
  A selected column given as a plain string, neither in \<^verbatim>\<open>groupBy\<close> nor an aggregate
  call, and validation passes.
\<close>

theorem grouping_check_counterexample:
  "client stringColumnNotGrouped = Mysql
   \<and> groupBy stringColumnNotGrouped = [ColumnObject ''users'' ''id'' None]
   \<and> columns stringColumnNotGrouped = [ColumnString ''users.email'']
   \<and> specNotGrouped stringColumnNotGrouped
   \<and> validations stringColumnNotGrouped = None"
  by code_simp

text \<open>
  C9, amended: for every specification with client mysql or mssql, with \<^verbatim>\<open>groupBy\<close> and
  \<^verbatim>\<open>columns\<close> not empty, that no earlier check rejects, validation fails with the grouping
  error exactly when some selected column given as an object has a name that is neither
  the name of a \<^verbatim>\<open>groupBy\<close> column given as an object nor starts, letters compared
  without case, with \<^verbatim>\<open>COUNT(\<close>, \<^verbatim>\<open>SUM(\<close>, \<^verbatim>\<open>AVG(\<close>, \<^verbatim>\<open>MIN(\<close> or \<^verbatim>\<open>MAX(\<close>. A column
  given as a plain string is never counted.
\<close>

theorem grouping_check_object_columns:
  assumes "client q = Mysql \<or> client q = Mssql"
    and "groupBy q \<noteq> []" and "columns q \<noteq> []"
    and "beforeGrouping q = None"
  shows "(validations q = Some ColumnsNotGrouped
           \<longleftrightarrow> (\<exists>ta n a. ColumnObject ta n a \<in> set (columns q)
                  \<and> (\<forall>ta' a'. ColumnObject ta' n a' \<notin> set (groupBy q))
                  \<and> \<not> aggregateCall n))
       \<and> notMapped (groupByColumns (groupBy q)) (ColumnString s) = False"
proof -
  have g: "ruleGrouping q = (if notMappedColumns q \<noteq> [] then Some ColumnsNotGrouped else None)"
    using assms(1-3) by (simp add: ruleGrouping_def)
  have "validations q = Some ColumnsNotGrouped \<longleftrightarrow> notMappedColumns q \<noteq> []"
  proof (cases "notMappedColumns q = []")
    case True
    then have "validations q = firstError [ruleJoinOn q, ruleWheres q]"
      using validations_after [OF assms(4)] g by simp
    then show ?thesis using after_grouping_error [of q] True by simp
  next
    case False
    then show ?thesis using validations_after [OF assms(4)] g by simp
  qed
  then show ?thesis by (simp add: notMappedColumns_iff)
qed

theorem grouping_check_object_columns_witness:
  "client objectColumnNotGrouped = Mysql
   \<and> groupBy objectColumnNotGrouped = [ColumnObject ''users'' ''id'' None]
   \<and> columns objectColumnNotGrouped = [ColumnObject ''users'' ''name'' None]
   \<and> beforeGrouping objectColumnNotGrouped = None
   \<and> validations objectColumnNotGrouped = Some ColumnsNotGrouped"
proof -
  have c: "client objectColumnNotGrouped = Mysql \<or> client objectColumnNotGrouped = Mssql"
    by (simp add: objectColumnNotGrouped_def groupedCount_def basicTest_def)
  have g: "groupBy objectColumnNotGrouped = [ColumnObject ''users'' ''id'' None]"
    by (simp add: objectColumnNotGrouped_def groupedCount_def)
  have cs: "columns objectColumnNotGrouped = [ColumnObject ''users'' ''name'' None]"
    by (simp add: objectColumnNotGrouped_def)
  have b: "beforeGrouping objectColumnNotGrouped = None" by code_simp
  have a: "\<not> aggregateCall ''name''" by code_simp
  have g': "groupBy objectColumnNotGrouped \<noteq> []" and cs': "columns objectColumnNotGrouped \<noteq> []"
    using g cs by simp_all
  have "\<exists>ta n a. ColumnObject ta n a \<in> set (columns objectColumnNotGrouped)
      \<and> (\<forall>ta' a'. ColumnObject ta' n a' \<notin> set (groupBy objectColumnNotGrouped))
      \<and> \<not> aggregateCall n"
    using a by (intro exI [of _ "''users''"] exI [of _ "''name''"] exI [of _ None])
      (simp add: g cs)
  then have "validations objectColumnNotGrouped = Some ColumnsNotGrouped"
    using grouping_check_object_columns [OF c g' cs' b] by blast
  with g cs b show ?thesis
    by (simp add: objectColumnNotGrouped_def groupedCount_def basicTest_def)
qed


end
